theory Spec2Isabelle
  imports Complex_Main
begin

section \<open>Order Item Breakdown: refund calculation and application\<close>

text \<open>
  A shallow embedding of \<^verbatim>\<open>src/react_app_frontend/src/components/OrderItemBreakdown.jsx\<close>.

  Numbers. JavaScript numbers are IEEE doubles. Every finite double is a rational, so a
  finite amount is a \<^typ>\<open>rat\<close> and arithmetic is exact: rounding of sums and
  differences is outside the model. The fields of order items, fees and payloads hold
  finite numbers (the data the page loads and every value \<^verbatim>\<open>applyRefund\<close> writes back),
  so they have type \<^typ>\<open>rat\<close>. A number parsed from an input element may be
  \<^verbatim>\<open>NaN\<close>; such values have the type \<open>jsnum\<close> below. The two infinities are not
  modelled.
\<close>

subsection \<open>Numbers and the \<^verbatim>\<open>||\<close> operator\<close>

datatype jsnum = Num rat | NaN

text \<open>\<^verbatim>\<open>x || y\<close> on finite numbers: \<open>x\<close> when it is truthy (not zero), otherwise \<open>y\<close>.\<close>

definition js_or :: "rat \<Rightarrow> rat \<Rightarrow> rat" where
  "js_or x y = (if x \<noteq> 0 then x else y)"

text \<open>\<^verbatim>\<open>Number(x) || 0\<close> on a number that may be \<^verbatim>\<open>NaN\<close> (\<^verbatim>\<open>NaN\<close> is falsy).\<close>

fun num_or_zero :: "jsnum \<Rightarrow> rat" where
  "num_or_zero (Num r) = js_or r 0"
| "num_or_zero NaN = 0"

text \<open>\<^verbatim>\<open>Math.max(0, x)\<close> on a number that may be \<^verbatim>\<open>NaN\<close>: \<^verbatim>\<open>NaN\<close> is propagated.\<close>

fun math_max_zero :: "jsnum \<Rightarrow> jsnum" where
  "math_max_zero (Num r) = Num (max 0 r)"
| "math_max_zero NaN = NaN"

subsection \<open>Data model\<close>

text \<open>
  The objects returned by \<^verbatim>\<open>fetchOrderItemsMock\<close>. The field \<^verbatim>\<open>type\<close> of a fee
  is \<open>fee_type\<close> and the field \<^verbatim>\<open>id\<close> of an item is \<open>item_id\<close>.
\<close>

record fee =
  fee_type :: string
  original :: rat
  refundableDefault :: rat
  maxRefund :: rat

record order_item =
  item_id :: string
  title :: string
  metadata :: string
  originalAmount :: rat
  amount :: rat
  refundedAmount :: rat
  fees :: "fee list"

text \<open>
  The payload built by \<^verbatim>\<open>handleConfirm\<close> and consumed by \<^verbatim>\<open>applyRefund\<close>:
  \<^verbatim>\<open>{ items: [{ id, amount, feeRefunds: [{ type, amount }] }], reason, notes }\<close>.
\<close>

record fee_refund =
  fr_type :: string
  fr_amount :: rat

record payload_item =
  p_id :: string
  p_amount :: rat
  p_feeRefunds :: "fee_refund list"

record payload =
  p_items :: "payload_item list"
  p_reason :: string
  p_notes :: string

subsection \<open>The mocked order items\<close>

definition itm_1 :: order_item where
  "itm_1 = \<lparr> item_id = ''itm_1'', title = ''Drug License - Address Update'',
     metadata = ''Fri, Jul 26, 2024 - 12:51 AM'',
     originalAmount = 75, amount = 75, refundedAmount = 0,
     fees = [
       \<lparr> fee_type = ''Processing fee'', original = 5 / 2, refundableDefault = 0, maxRefund = 0 \<rparr>,
       \<lparr> fee_type = ''Convenience fee'', original = 1, refundableDefault = 0, maxRefund = 0 \<rparr>,
       \<lparr> fee_type = ''Tax'', original = 23 / 4, refundableDefault = 23 / 4, maxRefund = 23 / 4 \<rparr> ] \<rparr>"

definition itm_2 :: order_item where
  "itm_2 = \<lparr> item_id = ''itm_2'', title = ''Drug License - Renewal'',
     metadata = ''Fri, Jul 26, 2024 - 01:10 PM'',
     originalAmount = 120, amount = 120, refundedAmount = 0,
     fees = [
       \<lparr> fee_type = ''Processing fee'', original = 13 / 4, refundableDefault = 0, maxRefund = 0 \<rparr>,
       \<lparr> fee_type = ''Convenience fee'', original = 5 / 4, refundableDefault = 0, maxRefund = 0 \<rparr>,
       \<lparr> fee_type = ''Tax'', original = 159 / 20, refundableDefault = 159 / 20, maxRefund = 159 / 20 \<rparr> ] \<rparr>"

definition itm_3 :: order_item where
  "itm_3 = \<lparr> item_id = ''itm_3'', title = ''Drug License - New Application'',
     metadata = ''Sat, Jul 27, 2024 - 09:42 AM'',
     originalAmount = 210, amount = 210, refundedAmount = 0,
     fees = [
       \<lparr> fee_type = ''Processing fee'', original = 17 / 4, refundableDefault = 0, maxRefund = 0 \<rparr>,
       \<lparr> fee_type = ''Convenience fee'', original = 7 / 4, refundableDefault = 0, maxRefund = 0 \<rparr>,
       \<lparr> fee_type = ''Tax'', original = 63 / 5, refundableDefault = 63 / 5, maxRefund = 63 / 5 \<rparr> ] \<rparr>"

definition fetchOrderItemsMock :: "order_item list" where
  "fetchOrderItemsMock = [itm_1, itm_2, itm_3]"

subsection \<open>\<^verbatim>\<open>maxRefundable\<close> (ConfirmRefundModal)\<close>

text \<open>
  \<^verbatim>\<open>
  if (!item) return 0;
  const base = Math.max(item.amount - item.refundedAmount, 0);
  const feeCap = item.fees.reduce((acc, f) => acc + (f.maxRefund || 0), 0);
  return base + feeCap;
  \<close>
  The prop \<^verbatim>\<open>item\<close> may be \<^verbatim>\<open>null\<close>: it is an \<open>order_item option\<close>.
\<close>

definition maxRefundable :: "order_item option \<Rightarrow> rat" where
  "maxRefundable item =
     (case item of
        None \<Rightarrow> 0
      | Some it \<Rightarrow>
          (let base = max (amount it - refundedAmount it) 0;
               feeCap = foldl (\<lambda>acc f. acc + js_or (maxRefund f) 0) 0 (fees it)
           in base + feeCap))"

subsection \<open>\<^verbatim>\<open>applyRefund\<close> (OrderItemBreakdown)\<close>

text \<open>\<^verbatim>\<open>Array.prototype.findIndex\<close>: the first index whose element satisfies the predicate;
  \<open>None\<close> is the result \<open>-1\<close>.\<close>

fun findIndex :: "('a \<Rightarrow> bool) \<Rightarrow> 'a list \<Rightarrow> nat option" where
  "findIndex P [] = None"
| "findIndex P (x # xs) = (if P x then Some 0 else map_option Suc (findIndex P xs))"

text \<open>\<^verbatim>\<open>(p.feeRefunds || []).reduce((a, b) => a + (Number(b.amount) || 0), 0)\<close>; an array,
  empty or not, is truthy, so \<^verbatim>\<open>|| []\<close> leaves it as it is.\<close>

definition feeSum :: "payload_item \<Rightarrow> rat" where
  "feeSum p = foldl (\<lambda>a b. a + js_or (fr_amount b) 0) 0 (p_feeRefunds p)"

text \<open>\<^verbatim>\<open>(Number(p.amount) || 0) + feeSum\<close>\<close>

definition totalRefund :: "payload_item \<Rightarrow> rat" where
  "totalRefund p = js_or (p_amount p) 0 + feeSum p"

text \<open>
  The body of \<^verbatim>\<open>payload.items.forEach((p) => ...)\<close>, on the working copy \<^verbatim>\<open>upd\<close>:
  \<^verbatim>\<open>
  const idx = upd.findIndex((it) => it.id === p.id);
  if (idx >= 0) {
    upd[idx] = { ...upd[idx],
      refundedAmount: (upd[idx].refundedAmount || 0) + totalRefund,
      amount: Math.max((upd[idx].amount || 0) - totalRefund, 0) };
  }
  \<close>
\<close>

definition refund_item :: "order_item \<Rightarrow> rat \<Rightarrow> order_item" where
  "refund_item it t =
     it \<lparr> refundedAmount := js_or (refundedAmount it) 0 + t,
          amount := max (js_or (amount it) 0 - t) 0 \<rparr>"

definition apply_one :: "order_item list \<Rightarrow> payload_item \<Rightarrow> order_item list" where
  "apply_one upd p =
     (case findIndex (\<lambda>it. item_id it = p_id p) upd of
        None \<Rightarrow> upd
      | Some idx \<Rightarrow> upd[idx := refund_item (upd ! idx) (totalRefund p)])"

text \<open>\<^verbatim>\<open>applyRefund(payload)\<close>: the list handed to \<^verbatim>\<open>setItems\<close>, from the current
  \<^verbatim>\<open>items\<close>. The function goes on to show a toast and to close the dialog; the closing
  is part of the dialog's transition system below.\<close>

definition applyRefund :: "order_item list \<Rightarrow> payload \<Rightarrow> order_item list" where
  "applyRefund its pl = foldl apply_one its (p_items pl)"

section \<open>\<^verbatim>\<open>currency\<close>\<close>

text \<open>
  \<^verbatim>\<open>
  export function currency(n) {
    try {
      return new Intl.NumberFormat("en-US", { style: "currency", currency: "USD" })
               .format(Number(n || 0));
    } catch {
      return `$${Number(n || 0).toFixed(2)}`;
    }
  }
  \<close>
  The argument is a number, \<^verbatim>\<open>NaN\<close>, \<^verbatim>\<open>undefined\<close> or \<^verbatim>\<open>null\<close>.
\<close>

datatype jsval = Undefined | Null | Number jsnum

text \<open>\<^verbatim>\<open>Number(n || 0)\<close>: \<^verbatim>\<open>undefined\<close>, \<^verbatim>\<open>null\<close>, \<^verbatim>\<open>NaN\<close> and \<open>0\<close> are falsy.\<close>

fun number_or_zero :: "jsval \<Rightarrow> rat" where
  "number_or_zero Undefined = 0"
| "number_or_zero Null = 0"
| "number_or_zero (Number x) = num_or_zero x"

text \<open>
  Two built-in functions of the JavaScript host are parameters of the model:
  \<^item> \<open>intl_format locale style cur x\<close> is
    \<^verbatim>\<open>new Intl.NumberFormat(locale, { style, currency: cur }).format(x)\<close>, and \<open>None\<close> when
    that expression throws;
  \<^item> \<open>number_toString x\<close> is the string of a number \<open>x \<ge> 10\<^sup>2\<^sup>1\<close> (ECMA-262,
    Number::toString), which depends on the double nearest to \<open>x\<close>.
\<close>

record host =
  intl_format :: "string \<Rightarrow> string \<Rightarrow> string \<Rightarrow> rat \<Rightarrow> string option"
  number_toString :: "rat \<Rightarrow> string"

text \<open>The decimal digits of a natural number, without leading zeros.\<close>

definition digit_char :: "nat \<Rightarrow> char" where
  "digit_char d = ''0123456789'' ! d"

fun digits :: "nat \<Rightarrow> string" where
  "digits n = (if n < 10 then [digit_char n] else digits (n div 10) @ [digit_char (n mod 10)])"

declare digits.simps [simp del]

text \<open>
  \<^verbatim>\<open>Number.prototype.toFixed(f)\<close> on a finite number, after ECMA-262:
  \<^enum> if \<open>x < 0\<close>, the sign \<open>s\<close> is \<^verbatim>\<open>"-"\<close> and \<open>x\<close> becomes \<open>-x\<close>;
  \<^enum> if \<open>x \<ge> 10\<^sup>2\<^sup>1\<close>, \<open>m\<close> is the string of \<open>x\<close> (exponent notation);
  \<^enum> otherwise \<open>n\<close> is the integer with \<open>n / 10\<^sup>f\<close> nearest to \<open>x\<close>, the larger one of two,
    \<open>m\<close> is the digits of \<open>n\<close>, and for \<open>f \<noteq> 0\<close> it is padded with zeros on the left to
    \<open>f + 1\<close> characters and a point is put before its last \<open>f\<close> characters;
  \<^enum> the result is \<open>s\<close> followed by \<open>m\<close>.
\<close>

definition toFixed :: "host \<Rightarrow> rat \<Rightarrow> nat \<Rightarrow> string" where
  "toFixed h x0 f =
     (let s = (if x0 < 0 then ''-'' else []);
          x = (if x0 < 0 then - x0 else x0)
      in if x \<ge> 10 ^ 21 then s @ number_toString h x
         else
           (let n = nat \<lfloor>x * 10 ^ f + 1 / 2\<rfloor>;
                m = digits n;
                m = (if f \<noteq> 0
                     then (let z = (if length m \<le> f then replicate (f + 1 - length m) (CHR ''0'') else []);
                               m = z @ m;
                               k = length m
                           in take (k - f) m @ ''.'' @ drop (k - f) m)
                     else m)
            in s @ m))"

definition currency :: "host \<Rightarrow> jsval \<Rightarrow> string" where
  "currency h n =
     (case intl_format h ''en-US'' ''currency'' ''USD'' (number_or_zero n) of
        Some str \<Rightarrow> str
      | None \<Rightarrow> ''$'' @ toFixed h (number_or_zero n) 2)"



text \<open>A number of hundredths written with two decimals: the digits of the whole part, a
  point, and the two digits of the rest.\<close>

definition fixed2 :: "nat \<Rightarrow> string" where
  "fixed2 n = digits (n div 100) @ ''.'' @ [digit_char (n div 10 mod 10), digit_char (n mod 10)]"

section \<open>The confirmation dialog (ConfirmRefundModal)\<close>

subsection \<open>Component state\<close>

text \<open>
  The four \<^verbatim>\<open>useState\<close> cells. \<^verbatim>\<open>refundAmount\<close> is written from an input element and
  may hold \<^verbatim>\<open>NaN\<close>. \<^verbatim>\<open>feeEdits\<close> is an object keyed by fee type, in insertion order:
  an association list with one entry for each key. Its values are written by the
  opening effect and by \<^verbatim>\<open>handleFeeChange\<close> only, which store finite numbers.
\<close>

record modal_state =
  refundAmount :: jsnum
  feeEdits :: "(string \<times> rat) list"
  submitting :: bool
  error :: string

text \<open>\<^verbatim>\<open>useState(0)\<close>, \<^verbatim>\<open>useState({})\<close>, \<^verbatim>\<open>useState(false)\<close>, \<^verbatim>\<open>useState("")\<close>\<close>

definition initial_modal :: modal_state where
  "initial_modal = \<lparr> refundAmount = Num 0, feeEdits = [], submitting = False, error = [] \<rparr>"

text \<open>\<^verbatim>\<open>obj[k] = v\<close> and \<^verbatim>\<open>{ ...obj, [k]: v }\<close>: an existing key keeps its position, a new
  key goes to the end. (JavaScript lists keys that are array indices first; fee types
  are labels, and the order matters to no sum.)\<close>

fun obj_set :: "(string \<times> 'v) list \<Rightarrow> string \<Rightarrow> 'v \<Rightarrow> (string \<times> 'v) list" where
  "obj_set [] k v = [(k, v)]"
| "obj_set ((k', v') # kvs) k v =
     (if k' = k then (k, v) # kvs else (k', v') # obj_set kvs k v)"

text \<open>\<^verbatim>\<open>obj[k]\<close>: \<open>None\<close> is \<^verbatim>\<open>undefined\<close>.\<close>

definition obj_get :: "(string \<times> 'v) list \<Rightarrow> string \<Rightarrow> 'v option" where
  "obj_get kvs k = map_of kvs k"

subsection \<open>The opening effect\<close>

text \<open>\<^verbatim>\<open>Math.min(f.refundableDefault || 0, f.maxRefund || f.refundableDefault || 0)\<close>\<close>

definition fee_default :: "fee \<Rightarrow> rat" where
  "fee_default f =
     min (js_or (refundableDefault f) 0)
         (js_or (js_or (maxRefund f) (refundableDefault f)) 0)"

text \<open>
  \<^verbatim>\<open>
  useEffect(() => {
    if (!open || !item) return;
    setRefundAmount(item.amount - item.refundedAmount);
    const defaults = {};
    item.fees.forEach((f) => { defaults[f.type] = Math.min(...); });
    setFeeEdits(defaults);
    setError("");
  }, [open, item]);
  \<close>
\<close>

definition fee_defaults :: "fee list \<Rightarrow> (string \<times> rat) list" where
  "fee_defaults fs = foldl (\<lambda>defaults f. obj_set defaults (fee_type f) (fee_default f)) [] fs"

definition open_effect :: "bool \<Rightarrow> order_item option \<Rightarrow> modal_state \<Rightarrow> modal_state" where
  "open_effect opn item st =
     (case item of
        None \<Rightarrow> st
      | Some it \<Rightarrow>
          if \<not> opn then st
          else st \<lparr> refundAmount := Num (amount it - refundedAmount it),
                    feeEdits := fee_defaults (fees it),
                    error := [] \<rparr>)"

subsection \<open>The requested total and its validation\<close>

text \<open>
  \<^verbatim>\<open>
  const fees = Object.values(feeEdits).reduce((a, b) => a + (Number(b) || 0), 0);
  return (Number(refundAmount) || 0) + fees;
  \<close>
\<close>

definition totalRequestedRefund :: "modal_state \<Rightarrow> rat" where
  "totalRequestedRefund st =
     (let fees = foldl (\<lambda>a b. a + js_or b 0) 0 (map snd (feeEdits st))
      in num_or_zero (refundAmount st) + fees)"

text \<open>
  \<^verbatim>\<open>
  useEffect(() => {
    if (!open) return;
    if (totalRequestedRefund <= 0) { setError("Enter amount greater than $0.00"); return; }
    if (totalRequestedRefund > maxRefundable) { setError("Exceeds refundable amount"); return; }
    setError("");
  }, [open, totalRequestedRefund, maxRefundable]);
  \<close>
  The two messages are the errors the specification calls \<open>NonPositiveAmount\<close> and
  \<open>ExceedsCap\<close>.
\<close>

definition NonPositiveAmount :: string where
  "NonPositiveAmount = ''Enter amount greater than $0.00''"

definition ExceedsCap :: string where
  "ExceedsCap = ''Exceeds refundable amount''"

definition validation_effect :: "bool \<Rightarrow> order_item option \<Rightarrow> modal_state \<Rightarrow> modal_state" where
  "validation_effect opn item st =
     (if \<not> opn then st
      else if totalRequestedRefund st \<le> 0 then st \<lparr> error := NonPositiveAmount \<rparr>
      else if totalRequestedRefund st > maxRefundable item then st \<lparr> error := ExceedsCap \<rparr>
      else st \<lparr> error := [] \<rparr>)"

text \<open>
  \<^verbatim>\<open>
  const partialNote =
    totalRequestedRefund < maxRefundable && totalRequestedRefund > 0
      ? "Partial refund will withhold some fees." : "";
  \<close>
\<close>

definition isPartial :: "order_item option \<Rightarrow> modal_state \<Rightarrow> bool" where
  "isPartial item st \<longleftrightarrow>
     totalRequestedRefund st < maxRefundable item \<and> totalRequestedRefund st > 0"

definition partialNote :: "order_item option \<Rightarrow> modal_state \<Rightarrow> string" where
  "partialNote item st =
     (if isPartial item st then ''Partial refund will withhold some fees.'' else [])"

text \<open>The line under the amount input:
  \<^verbatim>\<open>{error || `Customer receives: ${currency(totalRequestedRefund)}`}\<close>\<close>

definition helper_text :: "host \<Rightarrow> modal_state \<Rightarrow> string" where
  "helper_text h st =
     (if error st \<noteq> [] then error st
      else ''Customer receives: '' @ currency h (Number (Num (totalRequestedRefund st))))"

subsection \<open>Editing\<close>

text \<open>\<^verbatim>\<open>Math.min(f.maxRefund || 0, f.original || 0)\<close>, in \<^verbatim>\<open>handleFeeChange\<close> and in the fee
  table.\<close>

definition fee_cap :: "fee \<Rightarrow> rat" where
  "fee_cap f = min (js_or (maxRefund f) 0) (js_or (original f) 0)"

text \<open>
  \<^verbatim>\<open>
  const handleFeeChange = (type, value, f) => {
    const v = Number(value);
    const cap = Math.min(f.maxRefund || 0, f.original || 0);
    if (isNaN(v) || v < 0) { setFeeEdits((prev) => ({ ...prev, [type]: 0 })); }
    else { setFeeEdits((prev) => ({ ...prev, [type]: Math.min(v, cap) })); }
  };
  \<close>
  The argument \<open>v\<close> is \<^verbatim>\<open>Number(value)\<close>.
\<close>

definition handleFeeChange :: "string \<Rightarrow> jsnum \<Rightarrow> fee \<Rightarrow> modal_state \<Rightarrow> modal_state" where
  "handleFeeChange type v f st =
     (let cap = fee_cap f in
      case v of
        NaN \<Rightarrow> st \<lparr> feeEdits := obj_set (feeEdits st) type 0 \<rparr>
      | Num r \<Rightarrow>
          if r < 0 then st \<lparr> feeEdits := obj_set (feeEdits st) type 0 \<rparr>
          else st \<lparr> feeEdits := obj_set (feeEdits st) type (min r cap) \<rparr>)"

text \<open>\<^verbatim>\<open>onChange={(e) => setRefundAmount(Math.max(0, Number(e.target.value)))}\<close>; the
  argument \<open>v\<close> is \<^verbatim>\<open>Number(e.target.value)\<close>.\<close>

definition handleAmountChange :: "jsnum \<Rightarrow> modal_state \<Rightarrow> modal_state" where
  "handleAmountChange v st = st \<lparr> refundAmount := math_max_zero v \<rparr>"



subsection \<open>Confirming\<close>

text \<open>
  \<^verbatim>\<open>
  const handleConfirm = async () => {
    if (error || submitting) return;
    setSubmitting(true);
    const payload = { items: [{ id: item.id, amount: Number(refundAmount) || 0,
        feeRefunds: Object.entries(feeEdits).map(([type, amount]) =>
                      ({ type, amount: Number(amount) || 0 })) }],
      reason: "User-initiated refund", notes: "" };
    const res = await issueRefundMock(payload);
    setSubmitting(false);
    if (res?.ok) { onConfirm(payload); }
    else { setError("Failed to issue refund. Please try again."); }
  };
  \<close>
  The function is split at its \<^verbatim>\<open>await\<close>. \<open>handleConfirm\<close> is the part that runs at the
  click: it returns the new state and the payload handed to \<^verbatim>\<open>issueRefundMock\<close>, or
  \<open>None\<close> when it returns at its guard. \<open>handleResolve\<close> is the part that runs when
  the promise settles, with the value of \<^verbatim>\<open>res?.ok\<close>: it returns the new state and
  whether \<^verbatim>\<open>onConfirm(payload)\<close> is called.
\<close>

definition build_payload :: "order_item \<Rightarrow> modal_state \<Rightarrow> payload" where
  "build_payload it st =
     \<lparr> p_items = [\<lparr> p_id = item_id it,
                     p_amount = num_or_zero (refundAmount st),
                     p_feeRefunds = map (\<lambda>(type, amount). \<lparr> fr_type = type, fr_amount = js_or amount 0 \<rparr>)
                                        (feeEdits st) \<rparr>],
       p_reason = ''User-initiated refund'',
       p_notes = [] \<rparr>"

definition handleConfirm :: "order_item \<Rightarrow> modal_state \<Rightarrow> modal_state \<times> payload option" where
  "handleConfirm it st =
     (if error st \<noteq> [] \<or> submitting st then (st, None)
      else (st \<lparr> submitting := True \<rparr>, Some (build_payload it st)))"

definition handleResolve :: "bool \<Rightarrow> modal_state \<Rightarrow> modal_state \<times> bool" where
  "handleResolve ok st =
     (let st' = st \<lparr> submitting := False \<rparr> in
      if ok then (st', True)
      else (st' \<lparr> error := ''Failed to issue refund. Please try again.'' \<rparr>, False))"

text \<open>The Confirm button: \<^verbatim>\<open>disabled={!!error || submitting || totalRequestedRefund <= 0}\<close>\<close>

definition confirm_disabled :: "modal_state \<Rightarrow> bool" where
  "confirm_disabled st \<longleftrightarrow> error st \<noteq> [] \<or> submitting st \<or> totalRequestedRefund st \<le> 0"

subsection \<open>The dialog as a transition system\<close>

text \<open>
  One dialog instance, open on the item \<open>it\<close>. React runs an event handler, renders, and
  runs the effects whose dependencies changed, before it handles the next event; one
  such round is one step. While the dialog is open the props \<^verbatim>\<open>open\<close> and \<^verbatim>\<open>item\<close> do not
  change, so the opening effect runs at the mount only, and the validation effect runs
  again exactly when \<^verbatim>\<open>totalRequestedRefund\<close> differs from the previous render.
\<close>

definition rerender :: "order_item \<Rightarrow> modal_state \<Rightarrow> modal_state \<Rightarrow> modal_state" where
  "rerender it prev st =
     (if totalRequestedRefund st \<noteq> totalRequestedRefund prev
      then validation_effect True (Some it) st else st)"

text \<open>
  The mount. The first render sees the initial state; both effects run on it, the
  validation effect last, so its \<^verbatim>\<open>setError\<close> is the one that stays. The next render
  sees the new amounts.
\<close>

definition mount :: "order_item \<Rightarrow> modal_state" where
  "mount it =
     (let st0 = initial_modal;
          st1 = (open_effect True (Some it) st0)
                  \<lparr> error := error (validation_effect True (Some it) st0) \<rparr>
      in rerender it st0 st1)"

text \<open>
  The configuration of a dialog instance: the component state, whether the component
  is still mounted, the payloads handed to \<^verbatim>\<open>issueRefundMock\<close> whose promise has not
  settled (\<open>in_flight\<close>), every payload ever handed to it (\<open>issued\<close>), and the payloads
  handed to \<^verbatim>\<open>onConfirm\<close> (\<open>confirmed\<close>).
\<close>

record dialog =
  modal :: modal_state
  mounted :: bool
  in_flight :: "payload list"
  issued :: "payload list"
  confirmed :: "payload list"

text \<open>
  The events: an edit of the refund amount, an edit of the fee in row \<open>i\<close> of the fee
  table, a click on Confirm, the settling of the oldest pending promise, and a close
  (the overlay and the close button stay enabled while a submission is pending).
  \<open>Click_Confirm\<close> calls \<open>handleConfirm\<close> whether or not the button is disabled.
\<close>

datatype event =
    Change_Amount jsnum
  | Change_Fee nat jsnum
  | Click_Confirm
  | Settle bool
  | Close

definition dialog_open :: "order_item \<Rightarrow> dialog" where
  "dialog_open it =
     \<lparr> modal = mount it, mounted = True, in_flight = [], issued = [], confirmed = [] \<rparr>"

text \<open>
  \<open>onConfirm\<close> is \<^verbatim>\<open>applyRefund\<close>, which ends with \<^verbatim>\<open>closeRefundModal()\<close>: the component
  is unmounted. State updates of an unmounted component are dropped; a pending promise
  still settles and still calls \<^verbatim>\<open>onConfirm\<close>.
\<close>

fun step :: "order_item \<Rightarrow> dialog \<Rightarrow> event \<Rightarrow> dialog" where
  "step it d (Change_Amount v) =
     (if mounted d
      then d \<lparr> modal := rerender it (modal d) (handleAmountChange v (modal d)) \<rparr>
      else d)"
| "step it d (Change_Fee i v) =
     (if mounted d \<and> i < length (fees it)
      then d \<lparr> modal := rerender it (modal d)
                          (handleFeeChange (fee_type (fees it ! i)) v (fees it ! i) (modal d)) \<rparr>
      else d)"
| "step it d Click_Confirm =
     (if mounted d
      then (case handleConfirm it (modal d) of
              (st', None) \<Rightarrow> d \<lparr> modal := st' \<rparr>
            | (st', Some pl) \<Rightarrow>
                d \<lparr> modal := st', in_flight := in_flight d @ [pl], issued := issued d @ [pl] \<rparr>)
      else d)"
| "step it d (Settle ok) =
     (case in_flight d of
        [] \<Rightarrow> d
      | pl # rest \<Rightarrow>
          (let (st', call) = handleResolve ok (modal d);
               d' = d \<lparr> in_flight := rest,
                        modal := (if mounted d then rerender it (modal d) st' else modal d) \<rparr>
           in if call then d' \<lparr> confirmed := confirmed d @ [pl], mounted := False \<rparr> else d'))"
| "step it d Close = d \<lparr> mounted := False \<rparr>"

definition run :: "order_item \<Rightarrow> event list \<Rightarrow> dialog" where
  "run it evs = foldl (step it) (dialog_open it) evs"

subsection \<open>Invariant of the transition system\<close>

text \<open>The requested total of a component state passes the validation.\<close>

definition passes :: "order_item \<Rightarrow> modal_state \<Rightarrow> bool" where
  "passes it st \<longleftrightarrow>
     0 < totalRequestedRefund st \<and> totalRequestedRefund st \<le> maxRefundable (Some it)"

text \<open>A payload is accepted for the item when it holds one request, for that item, whose
  total is greater than 0 and at most the maximum refundable value.\<close>

definition accepted :: "order_item \<Rightarrow> payload \<Rightarrow> bool" where
  "accepted it pl \<longleftrightarrow>
     (case p_items pl of
        [p] \<Rightarrow> p_id p = item_id it \<and> 0 < totalRefund p \<and> totalRefund p \<le> maxRefundable (Some it)
      | _ \<Rightarrow> False)"

text \<open>
  In every configuration: at most one promise is pending; while the component is mounted,
  \<^verbatim>\<open>submitting\<close> is set exactly when a promise is pending, and an empty \<^verbatim>\<open>error\<close> means that
  the requested total passes the validation; every payload handed to
  \<^verbatim>\<open>issueRefundMock\<close> is accepted.
\<close>

definition dialog_inv :: "order_item \<Rightarrow> dialog \<Rightarrow> bool" where
  "dialog_inv it d \<longleftrightarrow>
     length (in_flight d) \<le> 1
     \<and> (mounted d \<longrightarrow> (submitting (modal d) \<longleftrightarrow> in_flight d \<noteq> []))
     \<and> (mounted d \<and> error (modal d) = [] \<longrightarrow> passes it (modal d))
     \<and> list_all (accepted it) (issued d)"

section \<open>Examples\<close>

text \<open>A payload with one request, as \<^verbatim>\<open>handleConfirm\<close> builds it: the item id, the base
  amount and the fee refunds by fee type.\<close>

definition refund_request :: "string \<Rightarrow> rat \<Rightarrow> (string \<times> rat) list \<Rightarrow> payload_item" where
  "refund_request i a fs =
     \<lparr> p_id = i, p_amount = a,
       p_feeRefunds = map (\<lambda>(type, amount). \<lparr> fr_type = type, fr_amount = amount \<rparr>) fs \<rparr>"

definition single_payload :: "payload_item \<Rightarrow> payload" where
  "single_payload p = \<lparr> p_items = [p], p_reason = ''User-initiated refund'', p_notes = [] \<rparr>"

text \<open>The first mocked item after the refund of 75.00 plus 5.75 of tax.\<close>

definition itm_1_refunded :: order_item where
  "itm_1_refunded = itm_1 \<lparr> refundedAmount := 323 / 4, amount := 0 \<rparr>"

text \<open>A fee that is not refundable (\<open>maxRefund = 0\<close>) with a default refund above 0, and an
  item that carries it. Both satisfy the ranges of the data model.\<close>

definition fee_x :: fee where
  "fee_x = \<lparr> fee_type = ''Processing fee'', original = 5 / 2, refundableDefault = 5 / 2,
             maxRefund = 0 \<rparr>"

definition itm_x :: order_item where
  "itm_x = \<lparr> item_id = ''itm_x'', title = ''Example'', metadata = [],
     originalAmount = 75, amount = 75, refundedAmount = 0, fees = [fee_x] \<rparr>"


text \<open>The states of the scenarios: a base amount with the given fee refunds.\<close>

definition request_state :: "rat \<Rightarrow> (string \<times> rat) list \<Rightarrow> modal_state" where
  "request_state a fs = \<lparr> refundAmount = Num a, feeEdits = fs, submitting = False, error = [] \<rparr>"

text \<open>
  A host without \<^verbatim>\<open>Intl\<close>, where the fallback of \<^verbatim>\<open>currency\<close> runs.
  \<open>number_toString\<close> is given at \<open>10\<^sup>2\<^sup>1\<close>, the one value the examples use,
  where JavaScript prints \<^verbatim>\<open>1e+21\<close>: that is what \<^verbatim>\<open>(1e21).toFixed(2)\<close> evaluates to.
\<close>

definition host_without_intl :: host where
  "host_without_intl =
     \<lparr> intl_format = (\<lambda>locale style cur x. None), number_toString = (\<lambda>x. ''1e+21'') \<rparr>"


section \<open>Basic facts\<close>

lemma js_or_zero [simp]: "js_or x 0 = x"
  by (simp add: js_or_def)

lemma foldl_add_sum: "foldl (\<lambda>acc x. acc + g x) (a::rat) xs = a + sum_list (map g xs)"
  by (induction xs arbitrary: a) (simp_all add: add.assoc)

subsection \<open>\<^verbatim>\<open>findIndex\<close>\<close>

lemma findIndex_Some:
  "findIndex P xs = Some i \<Longrightarrow> i < length xs \<and> P (xs ! i) \<and> (\<forall>j<i. \<not> P (xs ! j))"
proof (induction xs arbitrary: i)
  case Nil
  then show ?case by simp
next
  case (Cons x xs)
  show ?case
  proof (cases "P x")
    case True
    with Cons.prems show ?thesis by simp
  next
    case False
    with Cons.prems obtain k where k: "findIndex P xs = Some k" "i = Suc k"
      by auto
    from Cons.IH [OF k(1)] False k(2) show ?thesis
      by (auto simp: less_Suc_eq_0_disj)
  qed
qed

lemma findIndex_None: "findIndex P xs = None \<longleftrightarrow> (\<forall>x\<in>set xs. \<not> P x)"
  by (induction xs) auto


subsection \<open>\<^verbatim>\<open>maxRefundable\<close> and \<^verbatim>\<open>applyRefund\<close>\<close>

lemma maxRefundable_Some:
  "maxRefundable (Some it) =
     max (amount it - refundedAmount it) 0 + sum_list (map maxRefund (fees it))"
  by (simp add: maxRefundable_def foldl_add_sum)

lemma totalRefund_eq: "totalRefund p = p_amount p + (\<Sum>b\<leftarrow>p_feeRefunds p. fr_amount b)"
  by (simp add: totalRefund_def feeSum_def foldl_add_sum)

lemma refund_item_simps [simp]:
  "refundedAmount (refund_item it t) = refundedAmount it + t"
  "amount (refund_item it t) = max (amount it - t) 0"
  "item_id (refund_item it t) = item_id it"
  "originalAmount (refund_item it t) = originalAmount it"
  "fees (refund_item it t) = fees it"
  by (simp_all add: refund_item_def)


lemma length_apply_one [simp]: "length (apply_one upd p) = length upd"
  by (simp add: apply_one_def split: option.splits)

text \<open>A refund never changes an item's id, so a request finds the same index before
  and after any other request.\<close>

lemma map_item_id_apply_one [simp]: "map item_id (apply_one upd p) = map item_id upd"
proof (cases "findIndex (\<lambda>x. item_id x = p_id p) upd")
  case None
  then show ?thesis by (simp add: apply_one_def)
next
  case (Some idx)
  from findIndex_Some [OF Some] have lt: "idx < length upd" by simp
  have "map item_id (apply_one upd p) = (map item_id upd)[idx := item_id (upd ! idx)]"
    using Some by (simp add: apply_one_def map_update)
  also have "\<dots> = (map item_id upd)[idx := map item_id upd ! idx]"
    using lt by simp
  also have "\<dots> = map item_id upd"
    by (rule list_update_id)
  finally show ?thesis .
qed

lemma length_foldl_apply_one: "length (foldl apply_one upd ps) = length upd"
  by (induction ps arbitrary: upd) simp_all

lemma map_item_id_foldl: "map item_id (foldl apply_one upd ps) = map item_id upd"
  by (induction ps arbitrary: upd) simp_all



lemma apply_one_unmatched:
  assumes "\<forall>x\<in>set upd. item_id x \<noteq> p_id p"
  shows "apply_one upd p = upd"
  using assms by (simp add: apply_one_def findIndex_None [THEN iffD2])

lemma apply_one_nth_other:
  assumes "i < length upd" "item_id (upd ! i) \<noteq> p_id p"
  shows "apply_one upd p ! i = upd ! i"
proof (cases "findIndex (\<lambda>x. item_id x = p_id p) upd")
  case None
  then show ?thesis by (simp add: apply_one_def)
next
  case (Some idx)
  from findIndex_Some [OF Some] assms have "idx \<noteq> i" by auto
  with Some show ?thesis by (simp add: apply_one_def)
qed

lemma foldl_apply_one_nth_other:
  assumes "i < length upd" "item_id (upd ! i) \<notin> p_id ` set ps"
  shows "foldl apply_one upd ps ! i = upd ! i"
  using assms
proof (induction ps arbitrary: upd)
  case Nil
  then show ?case by simp
next
  case (Cons p ps)
  have a: "apply_one upd p ! i = upd ! i"
    using Cons.prems by (intro apply_one_nth_other) auto
  have "foldl apply_one (apply_one upd p) ps ! i = apply_one upd p ! i"
    using Cons.prems a by (intro Cons.IH) auto
  with a show ?case by simp
qed

lemma foldl_apply_one_drop_unmatched:
  assumes "\<forall>x\<in>set its. item_id x \<noteq> p_id p"
  shows "foldl apply_one its (ps @ [p] @ qs) = foldl apply_one its (ps @ qs)"
proof -
  let ?upd = "foldl apply_one its ps"
  have "set (map item_id ?upd) = set (map item_id its)"
    by (simp add: map_item_id_foldl)
  then have eq: "item_id ` set ?upd = item_id ` set its" by simp
  have "\<forall>x\<in>set ?upd. item_id x \<noteq> p_id p"
  proof
    fix x assume "x \<in> set ?upd"
    then have "item_id x \<in> item_id ` set its" using eq by (metis imageI)
    then obtain y where "y \<in> set its" "item_id x = item_id y" by (rule imageE)
    with assms show "item_id x \<noteq> p_id p" by simp
  qed
  then have "apply_one ?upd p = ?upd" by (rule apply_one_unmatched)
  then show ?thesis by simp
qed



subsection \<open>The dialog\<close>

lemma totalRequestedRefund_eq:
  "totalRequestedRefund st = num_or_zero (refundAmount st) + sum_list (map snd (feeEdits st))"
  by (simp add: totalRequestedRefund_def foldl_add_sum)

lemma totalRequestedRefund_error [simp]:
  "totalRequestedRefund (st \<lparr> error := e \<rparr>) = totalRequestedRefund st"
  by (simp add: totalRequestedRefund_def)

lemma totalRequestedRefund_submitting [simp]:
  "totalRequestedRefund (st \<lparr> submitting := b \<rparr>) = totalRequestedRefund st"
  by (simp add: totalRequestedRefund_def)

lemma totalRequestedRefund_validation [simp]:
  "totalRequestedRefund (validation_effect opn item st) = totalRequestedRefund st"
  by (simp add: validation_effect_def)

lemma error_strings:
  "NonPositiveAmount \<noteq> []" "ExceedsCap \<noteq> []" "NonPositiveAmount \<noteq> ExceedsCap"
  by (simp_all add: NonPositiveAmount_def ExceedsCap_def)

lemma error_validation:
  "error (validation_effect True item st) =
     (if totalRequestedRefund st \<le> 0 then NonPositiveAmount
      else if totalRequestedRefund st > maxRefundable item then ExceedsCap else [])"
  by (simp add: validation_effect_def)

lemma submitting_validation [simp]:
  "submitting (validation_effect opn item st) = submitting st"
  by (simp add: validation_effect_def)

lemma validation_passes:
  "error (validation_effect True (Some it) st) = [] \<Longrightarrow> passes it st"
  using error_strings by (auto simp: error_validation passes_def split: if_splits)

lemma totalRefund_build_payload:
  "p_items (build_payload it st) = [p] \<Longrightarrow> totalRefund p = totalRequestedRefund st"
proof -
  assume "p_items (build_payload it st) = [p]"
  then have p: "p = \<lparr> p_id = item_id it, p_amount = num_or_zero (refundAmount st),
      p_feeRefunds = map (\<lambda>(type, amount). \<lparr> fr_type = type, fr_amount = js_or amount 0 \<rparr>) (feeEdits st) \<rparr>"
    by (simp add: build_payload_def)
  have fs: "map fr_amount (p_feeRefunds p) = map snd (feeEdits st)"
    unfolding p by (simp add: comp_def case_prod_beta)
  have a: "p_amount p = num_or_zero (refundAmount st)"
    unfolding p by simp
  show ?thesis
    by (simp only: totalRefund_eq totalRequestedRefund_eq fs a)
qed

lemma accepted_build_payload:
  "accepted it (build_payload it st) \<longleftrightarrow> passes it st"
proof -
  obtain p where p: "p_items (build_payload it st) = [p]" and i: "p_id p = item_id it"
    by (simp add: build_payload_def)
  from totalRefund_build_payload [OF p] p i show ?thesis
    by (simp add: accepted_def passes_def)
qed

lemma rerender_cases:
  "rerender it prev st =
     (if totalRequestedRefund st \<noteq> totalRequestedRefund prev
      then validation_effect True (Some it) st else st)"
  by (simp add: rerender_def)

lemma submitting_rerender [simp]: "submitting (rerender it prev st) = submitting st"
  by (simp add: rerender_def)

lemma totalRequestedRefund_rerender [simp]:
  "totalRequestedRefund (rerender it prev st) = totalRequestedRefund st"
  by (simp add: rerender_def)

lemma rerender_passes:
  assumes "error prev = [] \<longrightarrow> passes it prev" "error st = error prev"
  shows "error (rerender it prev st) = [] \<longrightarrow> passes it (rerender it prev st)"
proof (cases "totalRequestedRefund st = totalRequestedRefund prev")
  case True
  with assms show ?thesis by (simp add: rerender_def passes_def)
next
  case False
  then have "rerender it prev st = validation_effect True (Some it) st"
    by (simp add: rerender_def)
  then show ?thesis
    using validation_passes [of it st] by (simp add: passes_def)
qed

lemma mount_passes: "error (mount it) = [] \<longrightarrow> passes it (mount it)"
proof -
  let ?st1 = "(open_effect True (Some it) initial_modal)
                  \<lparr> error := error (validation_effect True (Some it) initial_modal) \<rparr>"
  have t0: "totalRequestedRefund initial_modal = 0"
    by (simp add: totalRequestedRefund_def initial_modal_def)
  then have e1: "error ?st1 = NonPositiveAmount"
    by (simp add: error_validation)
  have m: "mount it = rerender it initial_modal ?st1"
    by (simp add: mount_def Let_def)
  show ?thesis
  proof (cases "totalRequestedRefund ?st1 = totalRequestedRefund initial_modal")
    case True
    then have "mount it = ?st1" unfolding m by (simp only: rerender_def if_False simp_thms)
    with e1 error_strings show ?thesis by simp
  next
    case False
    then have "mount it = validation_effect True (Some it) ?st1"
      unfolding m by (simp only: rerender_def if_True simp_thms)
    then show ?thesis
      using validation_passes [of it ?st1] by (simp add: passes_def)
  qed
qed

lemma submitting_mount [simp]: "\<not> submitting (mount it)"
  by (simp add: mount_def Let_def open_effect_def initial_modal_def)

lemma dialog_inv_open: "dialog_inv it (dialog_open it)"
  using mount_passes [of it] by (simp add: dialog_inv_def dialog_open_def passes_def)

lemma handleAmountChange_fields [simp]:
  "error (handleAmountChange v st) = error st"
  "submitting (handleAmountChange v st) = submitting st"
  by (simp_all add: handleAmountChange_def)

lemma handleFeeChange_fields [simp]:
  "error (handleFeeChange type v f st) = error st"
  "submitting (handleFeeChange type v f st) = submitting st"
  by (simp_all add: handleFeeChange_def Let_def split: jsnum.splits)

lemma dialog_inv_edit:
  assumes "dialog_inv it d" "mounted d" "error st = error (modal d)" "submitting st = submitting (modal d)"
  shows "dialog_inv it (d \<lparr> modal := rerender it (modal d) st \<rparr>)"
proof -
  from assms(1,2) have "error (modal d) = [] \<longrightarrow> passes it (modal d)"
    by (simp add: dialog_inv_def passes_def)
  from rerender_passes [OF this assms(3)]
  have "error (rerender it (modal d) st) = [] \<longrightarrow> passes it (rerender it (modal d) st)" .
  with assms show ?thesis
    by (simp add: dialog_inv_def passes_def)
qed

lemma dialog_inv_confirm:
  assumes "dialog_inv it d"
  shows "dialog_inv it (step it d Click_Confirm)"
proof (cases "mounted d \<and> error (modal d) = [] \<and> \<not> submitting (modal d)")
  case True
  with assms have p: "passes it (modal d)" and e: "in_flight d = []"
    by (simp_all add: dialog_inv_def passes_def)
  from p have "accepted it (build_payload it (modal d))"
    by (simp add: accepted_build_payload)
  with True assms e p show ?thesis
    by (simp add: handleConfirm_def dialog_inv_def passes_def)
next
  case False
  then have "step it d Click_Confirm = d"
    by (auto simp: handleConfirm_def)
  with assms show ?thesis by simp
qed

lemma dialog_inv_settle:
  assumes "dialog_inv it d"
  shows "dialog_inv it (step it d (Settle ok))"
proof (cases "in_flight d")
  case Nil
  with assms show ?thesis by simp
next
  case (Cons pl rest)
  with assms have rest: "rest = []"
    by (simp add: dialog_inv_def)
  show ?thesis
  proof (cases ok)
    case True
    with Cons rest assms show ?thesis
      by (simp add: handleResolve_def Let_def dialog_inv_def)
  next
    case False
    with Cons rest assms show ?thesis
      by (simp add: handleResolve_def Let_def dialog_inv_def rerender_def)
  qed
qed

lemma dialog_inv_step:
  assumes "dialog_inv it d"
  shows "dialog_inv it (step it d ev)"
proof (cases ev)
  case (Change_Amount v)
  with assms show ?thesis
    by (simp add: dialog_inv_edit)
next
  case (Change_Fee i v)
  with assms show ?thesis
    by (simp add: dialog_inv_edit)
next
  case Click_Confirm
  with assms show ?thesis
    by (simp only: dialog_inv_confirm)
next
  case (Settle ok)
  with assms show ?thesis
    by (simp only: dialog_inv_settle)
next
  case Close
  with assms show ?thesis
    by (simp add: dialog_inv_def)
qed

lemma dialog_inv_run: "dialog_inv it (run it evs)"
proof (induction evs rule: rev_induct)
  case Nil
  show ?case by (simp add: run_def dialog_inv_open)
next
  case (snoc ev evs)
  have "run it (evs @ [ev]) = step it (run it evs) ev"
    by (simp add: run_def)
  with snoc dialog_inv_step show ?case by simp
qed

lemma maxRefundable_nonneg:
  assumes "\<forall>f\<in>set (fees it). 0 \<le> maxRefund f"
  shows "0 \<le> maxRefundable (Some it)"
proof -
  have "0 \<le> sum_list (map maxRefund (fees it))"
    using assms by (intro sum_list_nonneg) auto
  then show ?thesis by (simp add: maxRefundable_Some)
qed

lemma map_of_obj_set: "map_of (obj_set kvs k v) = (map_of kvs)(k \<mapsto> v)"
  by (induction kvs) (auto simp: fun_eq_iff)

lemma obj_get_obj_set: "obj_get (obj_set kvs k v) k' = (if k' = k then Some v else obj_get kvs k')"
  by (simp add: obj_get_def map_of_obj_set)

lemma fee_defaults_snoc:
  "fee_defaults (fs @ [f]) = obj_set (fee_defaults fs) (fee_type f) (fee_default f)"
  by (simp add: fee_defaults_def)

lemma obj_get_fee_defaults:
  assumes "distinct (map fee_type fs)" "f \<in> set fs"
  shows "obj_get (fee_defaults fs) (fee_type f) = Some (fee_default f)"
  using assms
proof (induction fs rule: rev_induct)
  case Nil
  then show ?case by simp
next
  case (snoc g fs)
  show ?case
  proof (cases "fee_type f = fee_type g")
    case True
    have "f = g"
    proof (rule ccontr)
      assume "f \<noteq> g"
      with snoc.prems(2) have "f \<in> set fs" by simp
      then have "fee_type g \<in> fee_type ` set fs" using True by (metis imageI)
      with snoc.prems(1) show False by simp
    qed
    then show ?thesis by (simp add: fee_defaults_snoc obj_get_obj_set)
  next
    case False
    with snoc.prems(2) have "f \<in> set fs" by auto
    moreover from snoc.prems(1) have "distinct (map fee_type fs)" by simp
    ultimately have "obj_get (fee_defaults fs) (fee_type f) = Some (fee_default f)"
      by (intro snoc.IH)
    with False show ?thesis by (simp add: fee_defaults_snoc obj_get_obj_set)
  qed
qed

lemma fee_cap_eq: "fee_cap f = min (maxRefund f) (original f)"
  by (simp add: fee_cap_def)

subsection \<open>\<^verbatim>\<open>toFixed\<close>\<close>


lemma digit_char_0: "digit_char 0 = CHR ''0''"
  by (simp add: digit_char_def)

lemma digits_lt_10: "n < 10 \<Longrightarrow> digits n = [digit_char n]"
  by (simp add: digits.simps)

lemma digits_ge_10: "10 \<le> n \<Longrightarrow> digits n = digits (n div 10) @ [digit_char (n mod 10)]"
  by (subst digits.simps) simp


lemma digits_nonempty: "digits n \<noteq> []"
  by (subst digits.simps) simp

text \<open>Padding to three characters and placing the point, for two fraction digits.\<close>

lemma digits_split_100:
  "100 \<le> n \<Longrightarrow> digits n = digits (n div 100) @ [digit_char (n div 10 mod 10), digit_char (n mod 10)]"
proof -
  assume h: "100 \<le> n"
  then have a: "10 \<le> n" and b: "10 \<le> n div 10" by simp_all
  have c: "n div 10 div 10 = n div 100" by (simp add: div_mult2_eq [symmetric])
  show ?thesis
    by (simp add: digits_ge_10 [OF a] digits_ge_10 [OF b] c)
qed

lemma pad_point:
  "(let m = digits n;
        z = (if length m \<le> 2 then replicate (2 + 1 - length m) (CHR ''0'') else []);
        m = z @ m;
        k = length m
    in take (k - 2) m @ ''.'' @ drop (k - 2) m) = fixed2 n"
proof -
  consider (a) "n < 10" | (b) "10 \<le> n" "n < 100" | (c) "100 \<le> n" by linarith
  then show ?thesis
  proof cases
    case a
    then have "n div 100 = 0" "n div 10 = 0" by simp_all
    with a show ?thesis
      by (simp add: digits_lt_10 fixed2_def digit_char_0 numeral_3_eq_3)
  next
    case b
    then have d: "n div 100 = 0" and e: "n div 10 < 10" and f: "n div 10 mod 10 = n div 10" by simp_all
    have "digits n = [digit_char (n div 10), digit_char (n mod 10)]"
      by (simp add: digits_ge_10 [OF b(1)] digits_lt_10 [OF e])
    then show ?thesis
      by (simp add: fixed2_def d f digits_lt_10 digit_char_0)
  next
    case c
    show ?thesis
      by (simp add: digits_split_100 [OF c] fixed2_def Let_def digits_nonempty)
  qed
qed

lemma toFixed_2:
  assumes "\<bar>x\<bar> < 10 ^ 21"
  shows "toFixed h x 2 = (if x < 0 then ''-'' else []) @ fixed2 (nat \<lfloor>\<bar>x\<bar> * 100 + 1 / 2\<rfloor>)"
proof -
  let ?n = "nat \<lfloor>\<bar>x\<bar> * 100 + 1 / 2\<rfloor>"
  have ax: "(if x < 0 then - x else x) = \<bar>x\<bar>" by simp
  have small: "\<not> 10 ^ 21 \<le> \<bar>x\<bar>" using assms by simp
  have "toFixed h x 2 = (if x < 0 then ''-'' else []) @
      (let m = digits ?n;
           z = (if length m \<le> 2 then replicate (2 + 1 - length m) (CHR ''0'') else []);
           m = z @ m;
           k = length m
       in take (k - 2) m @ ''.'' @ drop (k - 2) m)"
    unfolding toFixed_def ax using small by (simp add: Let_def)
  then show ?thesis
    by (simp only: pad_point)
qed




text \<open>The values the examples use.\<close>

lemma fixed2_8075: "fixed2 8075 = ''80.75''"
  by (simp add: fixed2_def digits_ge_10 digits_lt_10 digit_char_def)


lemma hundredths_8075: "nat \<lfloor>\<bar>323 / 4 :: rat\<bar> * 100 + 1 / 2\<rfloor> = 8075"
proof -
  have "\<lfloor>\<bar>323 / 4 :: rat\<bar> * 100 + 1 / 2\<rfloor> = 8075"
    by (rule floor_unique) simp_all
  then show ?thesis by simp
qed



lemma currency_without_intl_8075:
  "currency host_without_intl (Number (Num (323 / 4))) = ''$80.75''"
proof -
  have s: "\<bar>323 / 4 :: rat\<bar> < 10 ^ 21"
    by simp
  have "toFixed host_without_intl (323 / 4) 2
      = (if (323 / 4 :: rat) < 0 then ''-'' else [])
        @ fixed2 (nat \<lfloor>\<bar>323 / 4 :: rat\<bar> * 100 + 1 / 2\<rfloor>)"
    by (rule toFixed_2 [OF s])
  also have "\<dots> = ''80.75''"
    unfolding hundredths_8075 fixed2_8075 by simp
  finally show ?thesis
    by (simp add: currency_def host_without_intl_def)
qed

section \<open>The maximum refundable value\<close>

text \<open>
  Claim C2. For every order item, the maximum refundable value is
  \<open>max (amount - refundedAmount) 0\<close> plus the sum of \<open>maxRefund\<close> over the item's fees. An
  item with amount 75.00, refunded amount 0 and fees with (original, maxRefund) equal to
  (2.5, 0), (1.0, 0), (5.75, 5.75) has the maximum refundable value 80.75.
\<close>

theorem maxRefundable_formula:
  "maxRefundable (Some it)
     = max (amount it - refundedAmount it) 0 + (\<Sum>f\<leftarrow>fees it. maxRefund f)
   \<and> (amount it = 75 \<and> refundedAmount it = 0
        \<and> map (\<lambda>f. (original f, maxRefund f)) (fees it)
            = [(5 / 2, 0), (1, 0), (23 / 4, 23 / 4)]
       \<longrightarrow> maxRefundable (Some it) = 323 / 4)"
proof (intro conjI impI)
  show "maxRefundable (Some it)
     = max (amount it - refundedAmount it) 0 + (\<Sum>f\<leftarrow>fees it. maxRefund f)"
    by (rule maxRefundable_Some)
next
  assume h: "amount it = 75 \<and> refundedAmount it = 0
        \<and> map (\<lambda>f. (original f, maxRefund f)) (fees it)
            = [(5 / 2, 0), (1, 0), (23 / 4, 23 / 4)]"
  have "map maxRefund (fees it) = map snd (map (\<lambda>f. (original f, maxRefund f)) (fees it))"
    by (simp add: comp_def)
  also have "\<dots> = [0, 0, 23 / 4]"
    using h by simp
  finally show "maxRefundable (Some it) = 323 / 4"
    using h by (simp add: maxRefundable_Some)
qed

text \<open>The first mocked item is the item of the example.\<close>

theorem maxRefundable_formula_witness:
  "amount itm_1 = 75 \<and> refundedAmount itm_1 = 0
   \<and> map (\<lambda>f. (original f, maxRefund f)) (fees itm_1) = [(5 / 2, 0), (1, 0), (23 / 4, 23 / 4)]
   \<and> maxRefundable (Some itm_1) = 323 / 4"
proof -
  have h: "amount itm_1 = 75 \<and> refundedAmount itm_1 = 0
     \<and> map (\<lambda>f. (original f, maxRefund f)) (fees itm_1) = [(5 / 2, 0), (1, 0), (23 / 4, 23 / 4)]"
    by (simp add: itm_1_def)
  from maxRefundable_formula [of itm_1] h show ?thesis by blast
qed

section \<open>Applying a refund\<close>



text \<open>
  Claim C6. A request whose id matches no item of the collection is a no-op: the round of
  the loop leaves the working copy as it is, and the batch gives the same result with
  that request and without it. The output has the length of the input, and every item
  whose id no request of the batch names is at its index, unchanged.
\<close>

theorem applyRefund_frame:
  "(findIndex (\<lambda>x. item_id x = p_id p) its = None \<longrightarrow> apply_one its p = its)
   \<and> ((\<forall>x\<in>set its. item_id x \<noteq> p_id p) \<longrightarrow>
        findIndex (\<lambda>x. item_id x = p_id p) its = None
        \<and> (p_items pl = ps @ [p] @ qs \<longrightarrow>
             applyRefund its pl = applyRefund its (pl \<lparr> p_items := ps @ qs \<rparr>)))
   \<and> length (applyRefund its pl) = length its
   \<and> (\<forall>i<length its. item_id (its ! i) \<notin> p_id ` set (p_items pl) \<longrightarrow>
         applyRefund its pl ! i = its ! i)"
proof (intro conjI impI allI)
  assume "findIndex (\<lambda>x. item_id x = p_id p) its = None"
  then show "apply_one its p = its" by (simp add: apply_one_def)
next
  assume "\<forall>x\<in>set its. item_id x \<noteq> p_id p"
  then show "findIndex (\<lambda>x. item_id x = p_id p) its = None"
    by (simp add: findIndex_None)
next
  assume "\<forall>x\<in>set its. item_id x \<noteq> p_id p" and "p_items pl = ps @ [p] @ qs"
  then show "applyRefund its pl = applyRefund its (pl \<lparr> p_items := ps @ qs \<rparr>)"
    unfolding applyRefund_def using foldl_apply_one_drop_unmatched [of its p ps qs] by simp
next
  show "length (applyRefund its pl) = length its"
    by (simp add: applyRefund_def length_foldl_apply_one)
next
  fix i
  assume "i < length its" "item_id (its ! i) \<notin> p_id ` set (p_items pl)"
  then show "applyRefund its pl ! i = its ! i"
    unfolding applyRefund_def by (rule foldl_apply_one_nth_other)
qed

text \<open>A request for the unknown id \<^verbatim>\<open>itm_9\<close> changes nothing, alone or in a batch after
  a request for the first item; a request for the first item leaves the second one as it
  is.\<close>

theorem applyRefund_frame_witness:
  "''itm_9'' \<notin> item_id ` set fetchOrderItemsMock
   \<and> findIndex (\<lambda>x. item_id x = ''itm_9'') fetchOrderItemsMock = None
   \<and> apply_one fetchOrderItemsMock (refund_request ''itm_9'' 10 []) = fetchOrderItemsMock
   \<and> applyRefund fetchOrderItemsMock
        \<lparr> p_items = [refund_request ''itm_1'' 10 [], refund_request ''itm_9'' 10 []],
          p_reason = [], p_notes = [] \<rparr>
       = applyRefund fetchOrderItemsMock
           \<lparr> p_items = [refund_request ''itm_1'' 10 []], p_reason = [], p_notes = [] \<rparr>
   \<and> (1::nat) < length fetchOrderItemsMock
   \<and> applyRefund fetchOrderItemsMock (single_payload (refund_request ''itm_1'' 10 [])) ! 1
       = itm_2"
proof -
  let ?p = "refund_request ''itm_9'' 10 []"
  let ?q = "refund_request ''itm_1'' 10 []"
  let ?pl = "\<lparr> p_items = [?q, ?p], p_reason = [], p_notes = [] \<rparr>"
  have a: "\<forall>x\<in>set fetchOrderItemsMock. item_id x \<noteq> p_id ?p"
    by (simp add: fetchOrderItemsMock_def itm_1_def itm_2_def itm_3_def refund_request_def)
  have a': "p_items ?pl = [?q] @ [?p] @ []"
    by simp
  have b: "(1::nat) < length fetchOrderItemsMock"
    by (simp add: fetchOrderItemsMock_def)
  have c: "item_id (fetchOrderItemsMock ! 1) \<notin> p_id ` set (p_items (single_payload ?q))"
    by (simp add: fetchOrderItemsMock_def itm_2_def refund_request_def single_payload_def)
  note inst = applyRefund_frame [where p = ?p and its = fetchOrderItemsMock and pl = ?pl
      and ps = "[?q]" and qs = "[]"]
  from inst a have n: "findIndex (\<lambda>x. item_id x = p_id ?p) fetchOrderItemsMock = None"
    by blast
  with inst have 0: "apply_one fetchOrderItemsMock ?p = fetchOrderItemsMock"
    by blast
  from inst a a' have "applyRefund fetchOrderItemsMock ?pl
      = applyRefund fetchOrderItemsMock (?pl \<lparr> p_items := [?q] @ [] \<rparr>)"
    by blast
  then have 1: "applyRefund fetchOrderItemsMock ?pl
      = applyRefund fetchOrderItemsMock \<lparr> p_items = [?q], p_reason = [], p_notes = [] \<rparr>"
    by simp
  from applyRefund_frame [where its = fetchOrderItemsMock and pl = "single_payload ?q"] b c
  have "applyRefund fetchOrderItemsMock (single_payload ?q) ! 1 = fetchOrderItemsMock ! 1"
    by blast
  then have 2: "applyRefund fetchOrderItemsMock (single_payload ?q) ! 1 = itm_2"
    by (simp add: fetchOrderItemsMock_def)
  have i: "p_id ?p = ''itm_9''"
    by (simp add: refund_request_def)
  from a have a'': "''itm_9'' \<notin> item_id ` set fetchOrderItemsMock"
    unfolding i by (metis imageE)
  from a'' n 0 1 b 2 show ?thesis
    unfolding i by blast
qed



section \<open>The invariant \<open>originalAmount = amount + refundedAmount\<close>\<close>




section \<open>Validation of a request\<close>

text \<open>
  Claim C3. For an item whose fees have \<open>maxRefund \<ge> 0\<close> (the range of the data model)
  and a request with the total \<open>baseAmount\<close> plus the sum of the fee refunds, the
  validation effect reports \<open>NonPositiveAmount\<close> exactly when the total is at most 0,
  \<open>ExceedsCap\<close> exactly when the total exceeds the maximum refundable value, and no error
  exactly in the remaining case. With no error, the line under the amount shows
  "Customer receives:" with the formatted total, and the refund is partial (the note on
  partial refunds is shown) exactly when the total is below the maximum refundable value
  and above 0.
\<close>

theorem validation_verdict:
  "(\<forall>f\<in>set (fees it). 0 \<le> maxRefund f) \<longrightarrow>
     totalRequestedRefund st = num_or_zero (refundAmount st) + sum_list (map snd (feeEdits st))
     \<and> (error (validation_effect True (Some it) st) = NonPositiveAmount
          \<longleftrightarrow> totalRequestedRefund st \<le> 0)
     \<and> (error (validation_effect True (Some it) st) = ExceedsCap
          \<longleftrightarrow> totalRequestedRefund st > maxRefundable (Some it))
     \<and> (error (validation_effect True (Some it) st) = []
          \<longleftrightarrow> 0 < totalRequestedRefund st \<and> totalRequestedRefund st \<le> maxRefundable (Some it))
     \<and> (error (validation_effect True (Some it) st) = [] \<longrightarrow>
          helper_text h (validation_effect True (Some it) st)
            = ''Customer receives: '' @ currency h (Number (Num (totalRequestedRefund st)))
          \<and> (isPartial (Some it) (validation_effect True (Some it) st)
               \<longleftrightarrow> totalRequestedRefund st < maxRefundable (Some it)
                   \<and> totalRequestedRefund st > 0)
          \<and> (partialNote (Some it) (validation_effect True (Some it) st) \<noteq> []
               \<longleftrightarrow> isPartial (Some it) (validation_effect True (Some it) st)))"
proof (intro impI)
  assume wf: "\<forall>f\<in>set (fees it). 0 \<le> maxRefund f"
  have nn: "0 \<le> maxRefundable (Some it)"
    using wf by (rule maxRefundable_nonneg)
  let ?t = "totalRequestedRefund st"
  let ?st' = "validation_effect True (Some it) st"
  have 1: "?t = num_or_zero (refundAmount st) + sum_list (map snd (feeEdits st))"
    by (rule totalRequestedRefund_eq)
  have 2: "error ?st' = NonPositiveAmount \<longleftrightarrow> ?t \<le> 0"
    using error_strings by (auto simp: error_validation)
  have 3: "error ?st' = ExceedsCap \<longleftrightarrow> ?t > maxRefundable (Some it)"
    using error_strings nn by (auto simp: error_validation)
  have 4: "error ?st' = [] \<longleftrightarrow> 0 < ?t \<and> ?t \<le> maxRefundable (Some it)"
    using error_strings by (auto simp: error_validation)
  have 5: "helper_text h ?st' = ''Customer receives: '' @ currency h (Number (Num ?t))"
    if "error ?st' = []"
    using that by (simp add: helper_text_def)
  have 6: "isPartial (Some it) ?st' \<longleftrightarrow> ?t < maxRefundable (Some it) \<and> ?t > 0"
    by (simp add: isPartial_def)
  have 7: "partialNote (Some it) ?st' \<noteq> [] \<longleftrightarrow> isPartial (Some it) ?st'"
    by (simp add: partialNote_def)
  from 1 2 3 4 5 6 7
  show "totalRequestedRefund st = num_or_zero (refundAmount st) + sum_list (map snd (feeEdits st))
     \<and> (error (validation_effect True (Some it) st) = NonPositiveAmount
          \<longleftrightarrow> totalRequestedRefund st \<le> 0)
     \<and> (error (validation_effect True (Some it) st) = ExceedsCap
          \<longleftrightarrow> totalRequestedRefund st > maxRefundable (Some it))
     \<and> (error (validation_effect True (Some it) st) = []
          \<longleftrightarrow> 0 < totalRequestedRefund st \<and> totalRequestedRefund st \<le> maxRefundable (Some it))
     \<and> (error (validation_effect True (Some it) st) = [] \<longrightarrow>
          helper_text h (validation_effect True (Some it) st)
            = ''Customer receives: '' @ currency h (Number (Num (totalRequestedRefund st)))
          \<and> (isPartial (Some it) (validation_effect True (Some it) st)
               \<longleftrightarrow> totalRequestedRefund st < maxRefundable (Some it)
                   \<and> totalRequestedRefund st > 0)
          \<and> (partialNote (Some it) (validation_effect True (Some it) st) \<noteq> []
               \<longleftrightarrow> isPartial (Some it) (validation_effect True (Some it) st)))"
    by blast
qed

text \<open>
  The scenarios of the specification on the first mocked item, whose maximum refundable
  value is 80.75: 75.00 plus 5.75 of tax is accepted with the total 80.75 and is not
  partial; 80.00 is accepted and partial; 0 with no fee refunds is refused with
  \<open>NonPositiveAmount\<close>; 81.00 is refused with \<open>ExceedsCap\<close>.
\<close>

theorem validation_verdict_witness:
  "list_all (\<lambda>f. 0 \<le> maxRefund f) (fees itm_1)
   \<and> totalRequestedRefund (request_state 75 [(''Tax'', 23 / 4)]) = 323 / 4
   \<and> error (validation_effect True (Some itm_1) (request_state 75 [(''Tax'', 23 / 4)])) = []
   \<and> helper_text host_without_intl
        (validation_effect True (Some itm_1) (request_state 75 [(''Tax'', 23 / 4)]))
       = ''Customer receives: $80.75''
   \<and> \<not> isPartial (Some itm_1)
          (validation_effect True (Some itm_1) (request_state 75 [(''Tax'', 23 / 4)]))
   \<and> error (validation_effect True (Some itm_1) (request_state 80 [])) = []
   \<and> isPartial (Some itm_1) (validation_effect True (Some itm_1) (request_state 80 []))
   \<and> error (validation_effect True (Some itm_1) (request_state 0 [])) = NonPositiveAmount
   \<and> error (validation_effect True (Some itm_1) (request_state 81 [])) = ExceedsCap"
proof -
  have wf: "\<forall>f\<in>set (fees itm_1). 0 \<le> maxRefund f"
    by (simp add: itm_1_def)
  have m: "maxRefundable (Some itm_1) = 323 / 4"
    by (simp add: maxRefundable_Some itm_1_def)
  have t: "totalRequestedRefund (request_state 75 [(''Tax'', 23 / 4)]) = 323 / 4"
    "totalRequestedRefund (request_state 80 []) = 80"
    "totalRequestedRefund (request_state 0 []) = 0"
    "totalRequestedRefund (request_state 81 []) = 81"
    by (simp_all add: totalRequestedRefund_eq request_state_def)
  have c: "currency host_without_intl (Number (Num (323 / 4))) = ''$80.75''"
    by (rule currency_without_intl_8075)
  from validation_verdict [of itm_1 "request_state 75 [(''Tax'', 23 / 4)]" host_without_intl] wf
  have a: "error (validation_effect True (Some itm_1) (request_state 75 [(''Tax'', 23 / 4)])) = []
     \<and> helper_text host_without_intl
          (validation_effect True (Some itm_1) (request_state 75 [(''Tax'', 23 / 4)]))
         = ''Customer receives: $80.75''
     \<and> \<not> isPartial (Some itm_1)
          (validation_effect True (Some itm_1) (request_state 75 [(''Tax'', 23 / 4)]))"
    unfolding t m c by simp
  from validation_verdict [of itm_1 "request_state 80 []" host_without_intl] wf
  have b: "error (validation_effect True (Some itm_1) (request_state 80 [])) = []
     \<and> isPartial (Some itm_1) (validation_effect True (Some itm_1) (request_state 80 []))"
    unfolding t m by simp
  from validation_verdict [of itm_1 "request_state 0 []" host_without_intl] wf
  have d: "error (validation_effect True (Some itm_1) (request_state 0 [])) = NonPositiveAmount"
    unfolding t m by simp
  from validation_verdict [of itm_1 "request_state 81 []" host_without_intl] wf
  have e: "error (validation_effect True (Some itm_1) (request_state 81 [])) = ExceedsCap"
    unfolding t m by simp
  have l: "list_all (\<lambda>f. 0 \<le> maxRefund f) (fees itm_1)"
    using wf by (simp add: list_all_iff)
  from l t(1) a b d e show ?thesis by blast
qed

section \<open>The state of the dialog when it opens\<close>

text \<open>
  Claim C9. When the dialog opens for an item, the base refund amount is set to
  \<open>amount - refundedAmount\<close> with no clamp, so it is negative whenever
  \<open>refundedAmount > amount\<close>. The editable refund of each fee (fee types being unique
  within the item) is set to \<open>fee_default\<close>, which is \<open>min refundableDefault maxRefund\<close>
  when \<open>maxRefund > 0\<close> and \<open>refundableDefault\<close> when \<open>maxRefund = 0\<close>; for a fee with
  \<open>maxRefund = 0\<close> and \<open>refundableDefault > 0\<close> it exceeds the fee's cap
  \<open>min maxRefund original\<close>.
\<close>

theorem open_effect_defaults:
  "refundAmount (open_effect True (Some it) st) = Num (amount it - refundedAmount it)
   \<and> (amount it < refundedAmount it \<longrightarrow> amount it - refundedAmount it < 0)
   \<and> (distinct (map fee_type (fees it)) \<and> f \<in> set (fees it) \<longrightarrow>
        obj_get (feeEdits (open_effect True (Some it) st)) (fee_type f) = Some (fee_default f))
   \<and> (0 < maxRefund f \<longrightarrow> fee_default f = min (refundableDefault f) (maxRefund f))
   \<and> (maxRefund f = 0 \<longrightarrow> fee_default f = refundableDefault f)
   \<and> fee_cap f = min (maxRefund f) (original f)
   \<and> (maxRefund f = 0 \<and> 0 < refundableDefault f \<longrightarrow> fee_cap f < fee_default f)"
proof (intro conjI impI)
  show "refundAmount (open_effect True (Some it) st) = Num (amount it - refundedAmount it)"
    by (simp add: open_effect_def)
  show "amount it - refundedAmount it < 0" if "amount it < refundedAmount it"
    using that by simp
  show "obj_get (feeEdits (open_effect True (Some it) st)) (fee_type f) = Some (fee_default f)"
    if "distinct (map fee_type (fees it)) \<and> f \<in> set (fees it)"
    using that by (simp add: open_effect_def obj_get_fee_defaults)
  show "fee_default f = min (refundableDefault f) (maxRefund f)" if "0 < maxRefund f"
    using that by (simp add: fee_default_def js_or_def)
  show "fee_default f = refundableDefault f" if "maxRefund f = 0"
    using that by (simp add: fee_default_def js_or_def)
  show "fee_cap f = min (maxRefund f) (original f)"
    by (rule fee_cap_eq)
  show "fee_cap f < fee_default f" if "maxRefund f = 0 \<and> 0 < refundableDefault f"
    using that by (simp add: fee_default_def fee_cap_def js_or_def min_def)
qed

text \<open>
  On the first mocked item after its full refund (amount 0, refunded 80.75) the dialog
  opens with the base refund -80.75. On the first mocked item the tax fee
  (\<open>maxRefund = 5.75\<close>) opens at 5.75. The fee \<open>fee_x\<close> (\<open>maxRefund = 0\<close>, default 2.50)
  opens at 2.50, above its cap 0.
\<close>

theorem open_effect_defaults_witness:
  "amount itm_1_refunded < refundedAmount itm_1_refunded
   \<and> refundAmount (open_effect True (Some itm_1_refunded) initial_modal) = Num (- (323 / 4))
   \<and> distinct (map fee_type (fees itm_1))
   \<and> fees itm_1 ! 2 \<in> set (fees itm_1)
   \<and> 0 < maxRefund (fees itm_1 ! 2)
   \<and> obj_get (feeEdits (open_effect True (Some itm_1) initial_modal)) ''Tax'' = Some (23 / 4)
   \<and> maxRefund fee_x = 0 \<and> 0 < refundableDefault fee_x
   \<and> obj_get (feeEdits (open_effect True (Some itm_x) initial_modal)) ''Processing fee''
       = Some (5 / 2)
   \<and> fee_cap fee_x = 0
   \<and> fee_cap fee_x < fee_default fee_x"
proof -
  let ?tax = "fees itm_1 ! 2"
  have tax: "?tax = \<lparr> fee_type = ''Tax'', original = 23 / 4, refundableDefault = 23 / 4,
      maxRefund = 23 / 4 \<rparr>"
    by (simp add: itm_1_def)
  have r: "amount itm_1_refunded < refundedAmount itm_1_refunded"
    "amount itm_1_refunded - refundedAmount itm_1_refunded = - (323 / 4)"
    by (simp_all add: itm_1_refunded_def)
  have d1: "distinct (map fee_type (fees itm_1))"
    by (simp add: itm_1_def)
  have m1: "?tax \<in> set (fees itm_1)"
    by (simp add: itm_1_def)
  have p1: "0 < maxRefund ?tax"
    by (simp add: tax)
  have dx: "distinct (map fee_type (fees itm_x)) \<and> fee_x \<in> set (fees itm_x)"
    by (simp add: itm_x_def)
  have zx: "maxRefund fee_x = 0" "0 < refundableDefault fee_x"
    by (simp_all add: fee_x_def)
  from open_effect_defaults [of itm_1_refunded initial_modal ?tax] r
  have 1: "refundAmount (open_effect True (Some itm_1_refunded) initial_modal) = Num (- (323 / 4))"
    by simp
  from open_effect_defaults [of itm_1 initial_modal ?tax] d1 m1 p1
  have "obj_get (feeEdits (open_effect True (Some itm_1) initial_modal)) (fee_type ?tax)
      = Some (min (refundableDefault ?tax) (maxRefund ?tax))"
    by simp
  then have 2: "obj_get (feeEdits (open_effect True (Some itm_1) initial_modal)) ''Tax''
      = Some (23 / 4)"
    by (simp add: tax)
  from open_effect_defaults [of itm_x initial_modal fee_x] dx zx
  have "obj_get (feeEdits (open_effect True (Some itm_x) initial_modal)) (fee_type fee_x)
      = Some (refundableDefault fee_x)
    \<and> fee_cap fee_x = min (maxRefund fee_x) (original fee_x)
    \<and> fee_cap fee_x < fee_default fee_x"
    by simp
  then have 3: "obj_get (feeEdits (open_effect True (Some itm_x) initial_modal)) ''Processing fee''
      = Some (5 / 2)
    \<and> fee_cap fee_x = 0
    \<and> fee_cap fee_x < fee_default fee_x"
    by (simp add: fee_x_def)
  from r(1) 1 d1 m1 p1 2 zx 3 show ?thesis by blast
qed

section \<open>The cap of a single fee\<close>





section \<open>Submissions of the dialog\<close>

text \<open>
  Claim C8. \<^verbatim>\<open>handleConfirm\<close> returns at its guard, with the state as it is and nothing
  handed to the refund service, when an error is shown or a submission is pending;
  otherwise it sets \<^verbatim>\<open>submitting\<close> and hands over the payload. In every configuration the
  dialog reaches from its opening, by any sequence of events: at most one submission is
  pending; every payload ever handed to the refund service passed the validation (one
  request, for the dialog's item, with a total above 0 and at most the maximum
  refundable value); while an error is shown or a submission is pending, a click on
  Confirm leaves the configuration as it is; and while the dialog is mounted,
  \<^verbatim>\<open>submitting\<close> is set exactly when a submission is pending and the Confirm button is
  disabled exactly when \<^verbatim>\<open>handleConfirm\<close> would return at its guard.
\<close>

theorem dialog_submission_guard:
  "(error st \<noteq> [] \<or> submitting st \<longrightarrow> handleConfirm it st = (st, None))
   \<and> (error st = [] \<and> \<not> submitting st \<longrightarrow>
        handleConfirm it st = (st \<lparr> submitting := True \<rparr>, Some (build_payload it st)))
   \<and> length (in_flight (run it evs)) \<le> 1
   \<and> list_all (accepted it) (issued (run it evs))
   \<and> (error (modal (run it evs)) \<noteq> [] \<or> in_flight (run it evs) \<noteq> [] \<longrightarrow>
        step it (run it evs) Click_Confirm = run it evs)
   \<and> (mounted (run it evs) \<longrightarrow>
        (submitting (modal (run it evs)) \<longleftrightarrow> in_flight (run it evs) \<noteq> [])
        \<and> (confirm_disabled (modal (run it evs))
             \<longleftrightarrow> error (modal (run it evs)) \<noteq> [] \<or> submitting (modal (run it evs))))"
proof -
  have inv: "dialog_inv it (run it evs)"
    by (rule dialog_inv_run)
  have 1: "handleConfirm it st = (st, None)" if "error st \<noteq> [] \<or> submitting st"
    using that by (auto simp: handleConfirm_def)
  have 2: "handleConfirm it st = (st \<lparr> submitting := True \<rparr>, Some (build_payload it st))"
    if "error st = [] \<and> \<not> submitting st"
    using that by (simp add: handleConfirm_def)
  have 3: "length (in_flight (run it evs)) \<le> 1"
    using inv by (simp add: dialog_inv_def)
  have 4: "list_all (accepted it) (issued (run it evs))"
    using inv by (simp add: dialog_inv_def)
  have 5: "step it (run it evs) Click_Confirm = run it evs"
    if h: "error (modal (run it evs)) \<noteq> [] \<or> in_flight (run it evs) \<noteq> []"
  proof (cases "mounted (run it evs)")
    case False
    then show ?thesis by simp
  next
    case True
    with inv h have "error (modal (run it evs)) \<noteq> [] \<or> submitting (modal (run it evs))"
      by (auto simp: dialog_inv_def)
    then have "handleConfirm it (modal (run it evs)) = (modal (run it evs), None)"
      by (auto simp: handleConfirm_def)
    with True show ?thesis by simp
  qed
  have 6: "submitting (modal (run it evs)) \<longleftrightarrow> in_flight (run it evs) \<noteq> []"
    if "mounted (run it evs)"
    using inv that by (simp add: dialog_inv_def)
  have 7: "confirm_disabled (modal (run it evs))
      \<longleftrightarrow> error (modal (run it evs)) \<noteq> [] \<or> submitting (modal (run it evs))"
    if "mounted (run it evs)"
    using inv that by (auto simp: dialog_inv_def confirm_disabled_def passes_def)
  from 1 2 3 4 5 6 7 show ?thesis by blast
qed

text \<open>
  The dialog on the first mocked item. With the total 0 the error \<open>NonPositiveAmount\<close> is
  shown and \<^verbatim>\<open>handleConfirm\<close> does nothing. As opened, the dialog shows no error and the
  first click on Confirm submits; the second click, while that submission is pending,
  changes nothing, and one payload has been issued.
\<close>

theorem dialog_submission_guard_witness:
  "error (validation_effect True (Some itm_1) (request_state 0 [])) \<noteq> []
   \<and> handleConfirm itm_1 (validation_effect True (Some itm_1) (request_state 0 []))
       = (validation_effect True (Some itm_1) (request_state 0 []), None)
   \<and> error (mount itm_1) = [] \<and> \<not> submitting (mount itm_1)
   \<and> handleConfirm itm_1 (mount itm_1)
       = (mount itm_1 \<lparr> submitting := True \<rparr>, Some (build_payload itm_1 (mount itm_1)))
   \<and> in_flight (run itm_1 [Click_Confirm]) \<noteq> []
   \<and> step itm_1 (run itm_1 [Click_Confirm]) Click_Confirm = run itm_1 [Click_Confirm]
   \<and> length (in_flight (run itm_1 [Click_Confirm, Click_Confirm])) \<le> 1
   \<and> list_all (accepted itm_1) (issued (run itm_1 [Click_Confirm, Click_Confirm]))
   \<and> issued (run itm_1 [Click_Confirm, Click_Confirm]) = [build_payload itm_1 (mount itm_1)]
   \<and> mounted (run itm_1 [Click_Confirm])
   \<and> submitting (modal (run itm_1 [Click_Confirm]))
   \<and> confirm_disabled (modal (run itm_1 [Click_Confirm]))"
proof -
  let ?bad = "validation_effect True (Some itm_1) (request_state 0 [])"
  have e: "error ?bad \<noteq> []"
    by code_simp
  have o: "error (mount itm_1) = [] \<and> \<not> submitting (mount itm_1)"
    by code_simp
  have f: "in_flight (run itm_1 [Click_Confirm]) \<noteq> []"
    by code_simp
  have i: "issued (run itm_1 [Click_Confirm, Click_Confirm]) = [build_payload itm_1 (mount itm_1)]"
    by code_simp
  have m: "mounted (run itm_1 [Click_Confirm])"
    by code_simp
  from dialog_submission_guard [of ?bad itm_1 "[Click_Confirm]"] e f m
  have 1: "handleConfirm itm_1 ?bad = (?bad, None)"
    and 2: "step itm_1 (run itm_1 [Click_Confirm]) Click_Confirm = run itm_1 [Click_Confirm]"
    and 6: "submitting (modal (run itm_1 [Click_Confirm]))"
    and 7: "confirm_disabled (modal (run itm_1 [Click_Confirm]))"
    by blast+
  from dialog_submission_guard [of "mount itm_1" itm_1 "[Click_Confirm, Click_Confirm]"] o
  have 3: "handleConfirm itm_1 (mount itm_1)
       = (mount itm_1 \<lparr> submitting := True \<rparr>, Some (build_payload itm_1 (mount itm_1)))"
    and 4: "length (in_flight (run itm_1 [Click_Confirm, Click_Confirm])) \<le> 1"
    and 5: "list_all (accepted itm_1) (issued (run itm_1 [Click_Confirm, Click_Confirm]))"
    by blast+
  from e 1 o 3 f 2 4 5 i m 6 7 show ?thesis by blast
qed

section \<open>Formatting an amount\<close>






end
